theory Spec2Isabelle
  imports Main "HOL-Library.Sublist" "HOL-Library.AList" "HOL-Library.Multiset"
begin

section \<open>Agent Mail and Beads: the coordination core\<close>

text \<open>
  A shallow embedding of \<^verbatim>\<open>interpreter/integrations/agent_mail.py\<close>: the classes
  \<^verbatim>\<open>AgentMail\<close> (identity registry, mailboxes, file reservations) and \<^verbatim>\<open>Beads\<close>
  (issue graph).

  Conventions of the embedding.
  \<^item> A \<^verbatim>\<open>datetime\<close> is an integer count of microseconds since 0001-01-01 00:00:00, the
    least \<^verbatim>\<open>datetime\<close>; a \<^verbatim>\<open>timedelta\<close> is an integer count of microseconds.
  \<^item> Every read of the environment is a parameter of the operation that makes it, in the
    order of the reads: each \<^verbatim>\<open>str(uuid.uuid4())[:12]\<close>, each \<^verbatim>\<open>datetime.utcnow()\<close>
    (also the ones hidden in a dataclass \<^verbatim>\<open>default_factory\<close>), and the result of
    \<^verbatim>\<open>_generate_id\<close> (a truncated SHA-256 of title and clock).
  \<^item> Every operation takes the state of the object and returns its result together with
    the state it leaves behind; a raised exception is an \<open>Inl\<close> result and leaves the
    state as it was at the \<^verbatim>\<open>raise\<close>.
  \<^item> A dictionary that the code iterates over (\<^verbatim>\<open>reservations\<close>, \<^verbatim>\<open>issues\<close>) is an
    association list in insertion order: \<open>AList.update\<close> is Python's \<^verbatim>\<open>d[k] = v\<close> (an
    existing key keeps its position, a new key goes last), \<open>map_of\<close> is the lookup and
    \<open>AList.map_entry\<close> is the mutation in place of the object stored under a key. The
    dictionaries that are only looked up (\<^verbatim>\<open>agents\<close>, \<^verbatim>\<open>messages\<close>) are maps.
  \<^item> The class statement of \<^verbatim>\<open>FileReservation\<close> (lines 68 to 79) is ill-formed: the fields
    \<^verbatim>\<open>expires_at\<close> and \<^verbatim>\<open>ttl_seconds\<close> have no default and follow \<^verbatim>\<open>created_at\<close>, which has
    one, so \<^verbatim>\<open>@dataclass\<close> raises \<^verbatim>\<open>TypeError\<close> when the statement is executed, that is
    when the module is imported. The embedding follows the function bodies as they are
    written and lets this \<^verbatim>\<open>TypeError\<close> surface where \<^verbatim>\<open>FileReservation(...)\<close> is called:
    no instance of the class is ever built.
  \<^item> The SQLite tables of \<^verbatim>\<open>AgentMail\<close> are written and never read back by any
    operation, so they are not part of the state. The JSONL file of \<^verbatim>\<open>Beads\<close> is the
    list \<open>issues_db\<close> of the snapshots appended to it.
\<close>

type_synonym datetime = int

subsection \<open>Data model\<close>

datatype IssueStatus = BACKLOG | READY | IN_PROGRESS | DONE | BLOCKED

datatype ReservationStatus = ACTIVE | EXPIRED | RELEASED

text \<open>The fields of each dataclass carry a one-letter prefix, since several classes share
  field names (\<^verbatim>\<open>id\<close>, \<^verbatim>\<open>project_key\<close>, \<^verbatim>\<open>created_at\<close>, \<^verbatim>\<open>status\<close>).\<close>

record Agent =
  a_id :: string
  a_name :: string
  a_project_key :: string
  a_program :: string
  a_model :: string
  a_capabilities :: "string list"
  a_registered_at :: datetime
  a_last_active :: datetime

record Message =
  m_id :: string
  m_project_key :: string
  m_sender :: string
  m_recipient :: string
  m_subject :: string
  m_body :: string
  m_thread_id :: "string option"
  m_created_at :: datetime
  m_read :: bool

text \<open>The fields that the class statement of \<^verbatim>\<open>FileReservation\<close> declares. The record is the
  type of the values that the annotation of \<^verbatim>\<open>self.reservations\<close> announces; no operation
  builds one (\<open>FileReservation_init\<close>), so the dictionary stays empty.\<close>

record FileReservation =
  r_id :: string
  r_project_key :: string
  r_agent_name :: string
  r_paths :: "string list"
  r_exclusive :: bool
  r_status :: ReservationStatus
  r_created_at :: datetime
  r_expires_at :: datetime
  r_ttl_seconds :: int

record Issue =
  i_id :: string
  i_title :: string
  i_description :: string
  i_status :: IssueStatus
  i_priority :: string
  i_parent_id :: "string option"
  i_blocking :: "string list"
  i_blocked_by :: "string list"
  i_assignee :: "string option"
  i_created_at :: datetime
  i_updated_at :: datetime

text \<open>The exceptions of the operations:
  \<^item> \<^verbatim>\<open>ValueError(f"CONFLICT: {res.agent_name} has exclusive reservation on {res.paths}")\<close>,
    kept as the two values interpolated into its message;
  \<^item> \<^verbatim>\<open>TypeError: non-default argument 'expires_at' follows default argument\<close>, raised by
    \<^verbatim>\<open>@dataclass\<close> for the class \<^verbatim>\<open>FileReservation\<close>;
  \<^item> \<^verbatim>\<open>OverflowError\<close>, raised by \<^verbatim>\<open>timedelta(seconds=...)\<close> and by the addition of a
    \<^verbatim>\<open>timedelta\<close> to a \<^verbatim>\<open>datetime\<close> when the result is out of range.\<close>

datatype error =
    ValueError_CONFLICT string "string list"
  | TypeError_non_default_argument
  | OverflowError

record AgentMail =
  agents :: "string \<rightharpoonup> Agent"
  messages :: "string \<rightharpoonup> Message list"
  reservations :: "(string \<times> FileReservation) list"

record Beads =
  issues :: "(string \<times> Issue) list"
  issues_db :: "Issue list"

definition new_AgentMail :: AgentMail where
  "new_AgentMail = \<lparr>agents = Map.empty, messages = Map.empty, reservations = []\<rparr>"

definition new_Beads :: Beads where
  "new_Beads = \<lparr>issues = [], issues_db = []\<rparr>"

subsection \<open>Identity registry\<close>

text \<open>\<^verbatim>\<open>register_agent\<close> builds a new \<^verbatim>\<open>Agent\<close> (fresh id, \<^verbatim>\<open>registered_at\<close> and
  \<^verbatim>\<open>last_active\<close> from the clock), stores it under the name and creates the inbox if there
  is none. \<^verbatim>\<open>capabilities or []\<close> turns \<^verbatim>\<open>None\<close> into the empty list.\<close>

definition register_agent ::
  "string \<Rightarrow> string \<Rightarrow> string \<Rightarrow> string \<Rightarrow> string list option \<Rightarrow>
   string \<Rightarrow> datetime \<Rightarrow> datetime \<Rightarrow> AgentMail \<Rightarrow> Agent \<times> AgentMail" where
  "register_agent name project_key program model capabilities uuid now_registered now_active self =
    (let agent = \<lparr>a_id = uuid, a_name = name, a_project_key = project_key,
                   a_program = program, a_model = model,
                   a_capabilities = (case capabilities of None \<Rightarrow> [] | Some c \<Rightarrow> c),
                   a_registered_at = now_registered, a_last_active = now_active\<rparr>;
         self1 = self\<lparr>agents := (agents self)(name \<mapsto> agent)\<rparr>;
         self2 = (if messages self1 name = None
                  then self1\<lparr>messages := (messages self1)(name \<mapsto> [])\<rparr> else self1)
     in (agent, self2))"

subsection \<open>Mailbox service\<close>

text \<open>\<^verbatim>\<open>send_message\<close> draws one uuid for the message id and, when \<^verbatim>\<open>thread_id\<close> is
  \<^verbatim>\<open>None\<close> or empty (\<^verbatim>\<open>thread_id or ...\<close>), a second one for the thread id.\<close>

definition send_message ::
  "string \<Rightarrow> string \<Rightarrow> string \<Rightarrow> string \<Rightarrow> string \<Rightarrow> string option \<Rightarrow>
   string \<Rightarrow> string \<Rightarrow> datetime \<Rightarrow> AgentMail \<Rightarrow> Message \<times> AgentMail" where
  "send_message project_key sender recipient subject body thread_id uuid_id uuid_thread now self =
    (let message = \<lparr>m_id = uuid_id, m_project_key = project_key, m_sender = sender,
                     m_recipient = recipient, m_subject = subject, m_body = body,
                     m_thread_id = (case thread_id of
                                      None \<Rightarrow> Some uuid_thread
                                    | Some t \<Rightarrow> if t = [] then Some uuid_thread else Some t),
                     m_created_at = now, m_read = False\<rparr>;
         inbox = (case messages self recipient of None \<Rightarrow> [] | Some ms \<Rightarrow> ms)
     in (message, self\<lparr>messages := (messages self)(recipient \<mapsto> inbox @ [message])\<rparr>))"

text \<open>Python's \<^verbatim>\<open>sorted(xs, key=f, reverse=True)\<close> sorts the reversed list stably in
  ascending order and reverses the outcome, so equal keys keep their original order.\<close>

definition sorted_reverse :: "('a \<Rightarrow> 'k::linorder) \<Rightarrow> 'a list \<Rightarrow> 'a list" where
  "sorted_reverse f xs = rev (sort_key f (rev xs))"

text \<open>\<^verbatim>\<open>fetch_inbox\<close>: a \<^verbatim>\<open>datetime\<close> is always truthy, so \<^verbatim>\<open>if since_ts\<close> tests for
  \<^verbatim>\<open>None\<close>.\<close>

definition fetch_inbox :: "string \<Rightarrow> datetime option \<Rightarrow> AgentMail \<Rightarrow> Message list" where
  "fetch_inbox agent_name since_ts self =
    (let inbox = (case messages self agent_name of None \<Rightarrow> [] | Some ms \<Rightarrow> ms);
         inbox1 = (case since_ts of
                     None \<Rightarrow> inbox
                   | Some ts \<Rightarrow> filter (\<lambda>m. m_created_at m \<ge> ts) inbox)
     in sorted_reverse m_created_at inbox1)"

subsection \<open>Reservation manager\<close>

text \<open>The test of line 283, for one requested \<^verbatim>\<open>path\<close> against the paths of a stored
  reservation: \<^verbatim>\<open>any(p.startswith(path) or path.startswith(p) for p in res.paths)\<close>.\<close>

definition path_hits :: "string \<Rightarrow> string list \<Rightarrow> bool" where
  "path_hits path res_paths = list_ex (\<lambda>p. prefix path p \<or> prefix p path) res_paths"

text \<open>The conflict loop of \<^verbatim>\<open>reserve_files\<close>: the reservations in dictionary order, and
  for each active one the requested paths in order; the first hit of a reservation of
  another agent raises, naming that reservation.\<close>

fun check_paths :: "string \<Rightarrow> FileReservation \<Rightarrow> string list \<Rightarrow> error option" where
  "check_paths agent_name res [] = None"
| "check_paths agent_name res (path # paths) =
    (if path_hits path (r_paths res) \<and> r_agent_name res \<noteq> agent_name
     then Some (ValueError_CONFLICT (r_agent_name res) (r_paths res))
     else check_paths agent_name res paths)"

fun check_conflicts ::
  "string \<Rightarrow> string list \<Rightarrow> (string \<times> FileReservation) list \<Rightarrow> error option" where
  "check_conflicts agent_name paths [] = None"
| "check_conflicts agent_name paths ((res_id, res) # rest) =
    (if r_status res = ACTIVE
     then (case check_paths agent_name res paths of
             Some e \<Rightarrow> Some e
           | None \<Rightarrow> check_conflicts agent_name paths rest)
     else check_conflicts agent_name paths rest)"

text \<open>\<^verbatim>\<open>timedelta(seconds=n)\<close> for an integer \<open>n\<close>: the number of days of the result must
  have a magnitude of at most 999999999.\<close>

definition timedelta :: "int \<Rightarrow> error + int" where
  "timedelta seconds =
    (if - 999999999 \<le> seconds div 86400 \<and> seconds div 86400 \<le> 999999999
     then Inr (seconds * 1000000) else Inl OverflowError)"

text \<open>\<^verbatim>\<open>datetime + timedelta\<close>: the result must lie between \<^verbatim>\<open>datetime.min\<close> and
  \<^verbatim>\<open>datetime.max\<close> (9999-12-31 23:59:59.999999, the last microsecond of day 3652059).\<close>

definition datetime_max :: datetime where
  "datetime_max = 3652059 * 86400 * 1000000 - 1"

definition datetime_add :: "datetime \<Rightarrow> int \<Rightarrow> error + datetime" where
  "datetime_add t delta =
    (if 0 \<le> t + delta \<and> t + delta \<le> datetime_max then Inr (t + delta) else Inl OverflowError)"

text \<open>The call \<^verbatim>\<open>FileReservation(id=..., project_key=..., agent_name=..., paths=...,
  exclusive=..., status=..., expires_at=..., ttl_seconds=...)\<close>. The class could not be
  defined, so the call yields no instance: it is where the \<^verbatim>\<open>TypeError\<close> of the class
  statement surfaces.\<close>

definition FileReservation_init ::
  "string \<Rightarrow> string \<Rightarrow> string \<Rightarrow> string list \<Rightarrow> bool \<Rightarrow> ReservationStatus \<Rightarrow>
   datetime \<Rightarrow> int \<Rightarrow> error + FileReservation" where
  "FileReservation_init res_id project_key agent_name paths exclusive status expires_at ttl_seconds =
     Inl TypeError_non_default_argument"

text \<open>\<^verbatim>\<open>reserve_files\<close>: the conflict loop; then the arguments of the constructor call in
  their order (the uuid, the clock, the \<^verbatim>\<open>timedelta\<close>, their sum); then the call; then the
  store under the new id.\<close>

definition reserve_files ::
  "string \<Rightarrow> string \<Rightarrow> string list \<Rightarrow> bool \<Rightarrow> int \<Rightarrow>
   string \<Rightarrow> datetime \<Rightarrow> AgentMail \<Rightarrow> (error + FileReservation) \<times> AgentMail" where
  "reserve_files project_key agent_name paths exclusive ttl_seconds uuid now self =
    (case check_conflicts agent_name paths (reservations self) of
       Some e \<Rightarrow> (Inl e, self)
     | None \<Rightarrow>
        (case timedelta ttl_seconds of
           Inl e \<Rightarrow> (Inl e, self)
         | Inr delta \<Rightarrow>
            (case datetime_add now delta of
               Inl e \<Rightarrow> (Inl e, self)
             | Inr expires_at \<Rightarrow>
                (case FileReservation_init uuid project_key agent_name paths exclusive ACTIVE
                        expires_at ttl_seconds of
                   Inl e \<Rightarrow> (Inl e, self)
                 | Inr reservation \<Rightarrow>
                    (Inr reservation,
                     self\<lparr>reservations :=
                       AList.update (r_id reservation) reservation (reservations self)\<rparr>)))))"

definition release_reservation :: "string \<Rightarrow> AgentMail \<Rightarrow> bool \<times> AgentMail" where
  "release_reservation reservation_id self =
    (if map_of (reservations self) reservation_id \<noteq> None
     then (True, self\<lparr>reservations :=
                   AList.map_entry reservation_id (\<lambda>r. r\<lparr>r_status := RELEASED\<rparr>)
                     (reservations self)\<rparr>)
     else (False, self))"

text \<open>The loop of \<^verbatim>\<open>get_active_reservations\<close>: the list \<^verbatim>\<open>active\<close> it collects and the
  reservations as it leaves them (lazy expiry).\<close>

fun sweep ::
  "string \<Rightarrow> datetime \<Rightarrow> (string \<times> FileReservation) list \<Rightarrow>
   FileReservation list \<times> (string \<times> FileReservation) list" where
  "sweep project_key now [] = ([], [])"
| "sweep project_key now ((res_id, res) # rest) =
    (let (active, rest') = sweep project_key now rest
     in if r_project_key res = project_key
        then if r_status res = ACTIVE
             then if r_expires_at res > now
                  then (res # active, (res_id, res) # rest')
                  else (active, (res_id, res\<lparr>r_status := EXPIRED\<rparr>) # rest')
             else (active, (res_id, res) # rest')
        else (active, (res_id, res) # rest'))"

definition get_active_reservations ::
  "string \<Rightarrow> datetime \<Rightarrow> AgentMail \<Rightarrow> FileReservation list \<times> AgentMail" where
  "get_active_reservations project_key now self =
    (let (active, reservations') = sweep project_key now (reservations self)
     in (active, self\<lparr>reservations := reservations'\<rparr>))"

subsection \<open>Issue graph\<close>

text \<open>\<^verbatim>\<open>_save_issue\<close> appends a full snapshot of the issue to the JSONL file.\<close>

definition save_issue :: "Issue \<Rightarrow> Beads \<Rightarrow> Beads" where
  "save_issue issue self = self\<lparr>issues_db := issues_db self @ [issue]\<rparr>"

text \<open>The loop of \<^verbatim>\<open>create_issue\<close> over \<^verbatim>\<open>issue.blocking\<close>: every id that is a key of
  the store gets the new id appended to the \<^verbatim>\<open>blocked_by\<close> of the issue stored there.\<close>

fun add_blocked_by :: "string \<Rightarrow> string list \<Rightarrow> (string \<times> Issue) list \<Rightarrow> (string \<times> Issue) list" where
  "add_blocked_by new_id [] iss = iss"
| "add_blocked_by new_id (blocked_id # rest) iss =
    add_blocked_by new_id rest
      (if map_of iss blocked_id \<noteq> None
       then AList.map_entry blocked_id (\<lambda>i. i\<lparr>i_blocked_by := i_blocked_by i @ [new_id]\<rparr>) iss
       else iss)"

text \<open>\<^verbatim>\<open>create_issue\<close>: \<open>generated_id\<close> is what \<^verbatim>\<open>_generate_id(title)\<close> returns, and the
  two clock values are the \<^verbatim>\<open>default_factory\<close> reads for \<^verbatim>\<open>created_at\<close> and
  \<^verbatim>\<open>updated_at\<close>. Only the new issue is written to the JSONL file.\<close>

definition create_issue ::
  "string \<Rightarrow> string \<Rightarrow> string \<Rightarrow> string option \<Rightarrow> string list option \<Rightarrow>
   string \<Rightarrow> datetime \<Rightarrow> datetime \<Rightarrow> Beads \<Rightarrow> Issue \<times> Beads" where
  "create_issue title description priority parent_id blocking generated_id now_created now_updated self =
    (let issue = \<lparr>i_id = generated_id, i_title = title, i_description = description,
                   i_status = BACKLOG, i_priority = priority, i_parent_id = parent_id,
                   i_blocking = (case blocking of None \<Rightarrow> [] | Some l \<Rightarrow> l),
                   i_blocked_by = [], i_assignee = None,
                   i_created_at = now_created, i_updated_at = now_updated\<rparr>;
         issues1 = add_blocked_by (i_id issue) (i_blocking issue) (issues self);
         issues2 = AList.update (i_id issue) issue issues1
     in (issue, save_issue issue (self\<lparr>issues := issues2\<rparr>)))"

text \<open>\<^verbatim>\<open>update_issue\<close>: the tests \<^verbatim>\<open>if status\<close>, \<^verbatim>\<open>if assignee\<close>, \<^verbatim>\<open>if priority\<close> are
  truth tests. Every member of the enum is truthy; a string is truthy when it is not
  empty.\<close>

definition update_issue ::
  "string \<Rightarrow> IssueStatus option \<Rightarrow> string option \<Rightarrow> string option \<Rightarrow>
   datetime \<Rightarrow> Beads \<Rightarrow> Issue option \<times> Beads" where
  "update_issue issue_id status assignee priority now self =
    (case map_of (issues self) issue_id of
       None \<Rightarrow> (None, self)
     | Some issue \<Rightarrow>
        (let issue1 = (case status of None \<Rightarrow> issue | Some s \<Rightarrow> issue\<lparr>i_status := s\<rparr>);
             issue2 = (case assignee of
                         None \<Rightarrow> issue1
                       | Some a \<Rightarrow> if a \<noteq> [] then issue1\<lparr>i_assignee := Some a\<rparr> else issue1);
             issue3 = (case priority of
                         None \<Rightarrow> issue2
                       | Some p \<Rightarrow> if p \<noteq> [] then issue2\<lparr>i_priority := p\<rparr> else issue2);
             issue4 = issue3\<lparr>i_updated_at := now\<rparr>
         in (Some issue4,
             save_issue issue4
               (self\<lparr>issues := AList.map_entry issue_id (\<lambda>_. issue4) (issues self)\<rparr>))))"

text \<open>\<^verbatim>\<open>get_ready_issues\<close>. The generator of \<^verbatim>\<open>all(...)\<close> keeps the blockers that are keys
  of the store and reads each with \<^verbatim>\<open>self.issues.get(bid, Issue('',''))\<close>, whose default
  has status \<^verbatim>\<open>BACKLOG\<close>.\<close>

definition blocker_status :: "(string \<times> Issue) list \<Rightarrow> string \<Rightarrow> IssueStatus" where
  "blocker_status iss bid = (case map_of iss bid of None \<Rightarrow> BACKLOG | Some b \<Rightarrow> i_status b)"

definition all_done :: "(string \<times> Issue) list \<Rightarrow> Issue \<Rightarrow> bool" where
  "all_done iss issue =
    list_all (\<lambda>bid. blocker_status iss bid = DONE)
      (filter (\<lambda>bid. map_of iss bid \<noteq> None) (i_blocked_by issue))"

fun ready_loop :: "(string \<times> Issue) list \<Rightarrow> Issue list \<Rightarrow> Issue list" where
  "ready_loop iss [] = []"
| "ready_loop iss (issue # rest) =
    (if i_status issue = READY
     then if i_blocked_by issue = []
          then issue # ready_loop iss rest
          else if all_done iss issue then issue # ready_loop iss rest else ready_loop iss rest
     else ready_loop iss rest)"

definition get_ready_issues :: "Beads \<Rightarrow> Issue list" where
  "get_ready_issues self = ready_loop (issues self) (map snd (issues self))"

text \<open>\<^verbatim>\<open>_load_issues\<close>, run by the constructor: the lines of the JSONL file are replayed in
  order and the last snapshot of an id wins.\<close>

definition load_issues :: "Issue list \<Rightarrow> (string \<times> Issue) list" where
  "load_issues db = foldl (\<lambda>iss issue. AList.update (i_id issue) issue iss) [] db"

subsection \<open>Auxiliary notions and example runs\<close>

text \<open>A stored reservation blocks a request of \<open>agent_name\<close> for \<open>paths\<close> when the conflict
  loop raises on it: it is active, belongs to another agent, and one requested path hits it.\<close>

definition blocks :: "string \<Rightarrow> string list \<Rightarrow> FileReservation \<Rightarrow> bool" where
  "blocks agent_name paths res \<longleftrightarrow>
     r_status res = ACTIVE \<and> r_agent_name res \<noteq> agent_name \<and>
     list_ex (\<lambda>path. path_hits path (r_paths res)) paths"

text \<open>Alice registers, and registers again under the same name.\<close>

definition alice_registered :: "Agent \<times> AgentMail" where
  "alice_registered =
     register_agent ''alice'' ''proj'' ''claude'' ''opus'' None ''uuid-1'' 100 100 new_AgentMail"

definition alice_registered_again :: "Agent \<times> AgentMail" where
  "alice_registered_again =
     register_agent ''alice'' ''proj'' ''gpt'' ''four'' (Some [''review'']) ''uuid-2'' 200 200
       (snd alice_registered)"

text \<open>A store with one issue \<^verbatim>\<open>bd-x\<close>; then \<^verbatim>\<open>bd-y\<close> is created with
  \<^verbatim>\<open>blocking=["bd-x", "bd-ghost"]\<close>, \<^verbatim>\<open>bd-x\<close> is marked ready, and \<^verbatim>\<open>bd-y\<close> done.\<close>

definition beads_x :: Beads where
  "beads_x = snd (create_issue ''X'' [] ''medium'' None None ''bd-x'' 1 1 new_Beads)"

definition beads_xy :: Beads where
  "beads_xy = snd (create_issue ''Y'' [] ''medium'' None (Some [''bd-x'', ''bd-ghost''])
                     ''bd-y'' 2 2 beads_x)"

text \<open>With \<^verbatim>\<open>bd-x\<close> in the store, an issue is created with \<^verbatim>\<open>blocking=["bd-x"]\<close>, and
  \<^verbatim>\<open>_generate_id\<close> yields \<^verbatim>\<open>bd-x\<close> for it as well.\<close>

definition beads_collision :: Beads where
  "beads_collision = snd (create_issue ''X again'' [] ''medium'' None (Some [''bd-x''])
                            ''bd-x'' 2 2 beads_x)"

definition beads_x_ready :: Beads where
  "beads_x_ready = snd (update_issue ''bd-x'' (Some READY) None None 3 beads_xy)"

definition beads_y_done :: Beads where
  "beads_y_done = snd (update_issue ''bd-y'' (Some DONE) None None 4 beads_x_ready)"

section \<open>Reservation manager\<close>

lemma check_paths_eq:
  "check_paths b res paths =
    (if r_agent_name res \<noteq> b \<and> list_ex (\<lambda>path. path_hits path (r_paths res)) paths
     then Some (ValueError_CONFLICT (r_agent_name res) (r_paths res)) else None)"
  by (induction paths) auto

text \<open>The conflict loop raises on the first reservation, in the order of the dictionary, that
  is active, belongs to another agent and is hit by a requested path.\<close>

lemma check_conflicts_eq:
  "check_conflicts b paths rs =
    map_option (\<lambda>(k, res). ValueError_CONFLICT (r_agent_name res) (r_paths res))
      (find (\<lambda>(k, res). blocks b paths res) rs)"
  by (induction b paths rs rule: check_conflicts.induct)
     (simp_all add: check_paths_eq blocks_def)

text \<open>The conflict loop reads the status, the agent name and the paths of a reservation; it
  reads neither \<^verbatim>\<open>exclusive\<close> nor \<^verbatim>\<open>project_key\<close> nor \<^verbatim>\<open>expires_at\<close>.\<close>

lemma check_conflicts_ignores_fields:
  "check_conflicts b paths
     (map (\<lambda>(k, res). (k, res\<lparr>r_exclusive := fe k, r_project_key := fp k, r_expires_at := ft k\<rparr>)) rs)
   = check_conflicts b paths rs"
  by (induction b paths rs rule: check_conflicts.induct) (simp_all add: check_paths_eq)

lemma sweep_eq:
  "sweep pk now rs =
     (map snd (filter (\<lambda>(k, res). r_project_key res = pk \<and> r_status res = ACTIVE
                                 \<and> now < r_expires_at res) rs),
      map (\<lambda>(k, res). (k, if r_project_key res = pk \<and> r_status res = ACTIVE
                              \<and> \<not> now < r_expires_at res
                           then res\<lparr>r_status := EXPIRED\<rparr> else res)) rs)"
  by (induction pk now rs rule: sweep.induct) simp_all

text \<open>No call of \<^verbatim>\<open>reserve_files\<close> returns a reservation or changes the state: it raises the
  conflict, an \<^verbatim>\<open>OverflowError\<close>, or the \<^verbatim>\<open>TypeError\<close> of the class.\<close>

lemma reserve_files_raises:
  "\<exists>e. reserve_files project_key agent_name paths exclusive ttl_seconds uuid now self = (Inl e, self)"
  by (simp add: reserve_files_def FileReservation_init_def split: option.split sum.split)

lemma reserve_files_empty_store:
  assumes "reservations self = []"
    and "- 999999999 \<le> ttl_seconds div 86400" and "ttl_seconds div 86400 \<le> 999999999"
    and "0 \<le> now + ttl_seconds * 1000000" and "now + ttl_seconds * 1000000 \<le> datetime_max"
  shows "reserve_files project_key agent_name paths exclusive ttl_seconds uuid now self
           = (Inl TypeError_non_default_argument, self)"
  using assms
  by (simp add: reserve_files_def FileReservation_init_def timedelta_def datetime_add_def)

text \<open>Hence the dictionary of reservations, empty in a new \<^verbatim>\<open>AgentMail\<close>, stays empty under
  every operation of the class.\<close>

lemma reservations_stay_empty:
  assumes "reservations self = []"
  shows "reservations (snd (register_agent name project_key program model capabilities uuid t1 t2 self)) = []"
    and "reservations (snd (send_message project_key sender recipient subject body thread_id uuid uuid' t1 self)) = []"
    and "reservations (snd (reserve_files project_key agent_name paths exclusive ttl_seconds uuid t1 self)) = []"
    and "reservations (snd (release_reservation reservation_id self)) = []"
    and "reservations (snd (get_active_reservations project_key t1 self)) = []"
proof -
  show "reservations (snd (register_agent name project_key program model capabilities uuid t1 t2 self)) = []"
    using assms by (simp add: register_agent_def Let_def)
  show "reservations (snd (send_message project_key sender recipient subject body thread_id uuid uuid' t1 self)) = []"
    using assms by (simp add: send_message_def Let_def)
  from reserve_files_raises [of project_key agent_name paths exclusive ttl_seconds uuid t1 self]
  show "reservations (snd (reserve_files project_key agent_name paths exclusive ttl_seconds uuid t1 self)) = []"
    using assms by auto
  show "reservations (snd (release_reservation reservation_id self)) = []"
    using assms by (simp add: release_reservation_def)
  show "reservations (snd (get_active_reservations project_key t1 self)) = []"
    using assms by (simp add: get_active_reservations_def)
qed




section \<open>Identity registry\<close>

text \<open>
  Claim C3 as stated fails. Alice registers with id \<^verbatim>\<open>uuid-1\<close> at time 100 and registers
  again at time 200, when \<^verbatim>\<open>uuid.uuid4()\<close> yields \<^verbatim>\<open>uuid-2\<close>: the agent returned and stored
  by the second call has the new id and \<^verbatim>\<open>registered_at = 200\<close>.
\<close>

theorem register_agent_again_counterexample:
  "a_id (fst alice_registered) = ''uuid-1'' \<and> a_registered_at (fst alice_registered) = 100 \<and>
   a_id (fst alice_registered_again) = ''uuid-2'' \<and>
   a_registered_at (fst alice_registered_again) = 200 \<and>
   a_id (fst alice_registered_again) \<noteq> a_id (fst alice_registered) \<and>
   a_registered_at (fst alice_registered_again) \<noteq> a_registered_at (fst alice_registered) \<and>
   agents (snd alice_registered_again) ''alice'' = Some (fst alice_registered_again)"
  by (simp add: alice_registered_again_def alice_registered_def register_agent_def Let_def)

text \<open>
  Claim C3, amended. Registering a name that is already registered replaces the whole agent
  record: \<^verbatim>\<open>project_key\<close>, \<^verbatim>\<open>program\<close>, \<^verbatim>\<open>model\<close> and \<^verbatim>\<open>capabilities\<close> are the new
  arguments, the id is the one generated by the new call, and \<^verbatim>\<open>registered_at\<close> and
  \<^verbatim>\<open>last_active\<close> are both read from the clock by the new call. The mailboxes are kept.
\<close>

theorem register_agent_again_replaces:
  "let first = register_agent name project_key1 program1 model1 capabilities1 uuid1 now1 now1' self;
       second = register_agent name project_key2 program2 model2 capabilities2 uuid2 now2 now2' (snd first)
   in fst second = \<lparr>a_id = uuid2, a_name = name, a_project_key = project_key2,
                     a_program = program2, a_model = model2,
                     a_capabilities = (case capabilities2 of None \<Rightarrow> [] | Some c \<Rightarrow> c),
                     a_registered_at = now2, a_last_active = now2'\<rparr> \<and>
      agents (snd second) name = Some (fst second) \<and>
      messages (snd second) = messages (snd first)"
  by (simp add: register_agent_def Let_def)

text \<open>
  Claim C4 as stated fails: \<^verbatim>\<open>register_agent\<close> validates nothing. Called with the empty
  name on a new \<^verbatim>\<open>AgentMail\<close> it stores the agent under the empty name.
\<close>

theorem register_agent_empty_name_counterexample:
  "agents (snd (register_agent [] ''proj'' ''claude'' ''opus'' None ''uuid-1'' 100 100 new_AgentMail)) []
     = Some \<lparr>a_id = ''uuid-1'', a_name = [], a_project_key = ''proj'', a_program = ''claude'',
             a_model = ''opus'', a_capabilities = [], a_registered_at = 100, a_last_active = 100\<rparr>"
  by (simp add: register_agent_def new_AgentMail_def Let_def)

text \<open>
  Claim C4, amended. Every call of \<^verbatim>\<open>register_agent\<close> with an empty name succeeds: it
  returns an agent whose name is empty and stores it in the registry under the empty name,
  with an inbox for that name.
\<close>

theorem register_agent_empty_name_succeeds:
  "a_name (fst (register_agent [] project_key program model capabilities uuid now now' self)) = [] \<and>
   agents (snd (register_agent [] project_key program model capabilities uuid now now' self)) []
     = Some (fst (register_agent [] project_key program model capabilities uuid now now' self)) \<and>
   messages (snd (register_agent [] project_key program model capabilities uuid now now' self)) []
     \<noteq> None"
  by (simp add: register_agent_def Let_def)

section \<open>Mailbox service\<close>

text \<open>
  Claim C5 as stated fails. The message id and the default thread id are two draws of
  \<^verbatim>\<open>uuid.uuid4()\<close>; when they are \<^verbatim>\<open>msg-1\<close> and \<^verbatim>\<open>thr-1\<close>, the thread id of the message is
  \<^verbatim>\<open>thr-1\<close>, not the message's own id.
\<close>

theorem send_message_thread_id_counterexample:
  "m_id (fst (send_message ''proj'' ''alice'' ''bob'' ''hi'' ''hello'' None ''msg-1'' ''thr-1'' 100 new_AgentMail))
     = ''msg-1'' \<and>
   m_thread_id (fst (send_message ''proj'' ''alice'' ''bob'' ''hi'' ''hello'' None ''msg-1'' ''thr-1'' 100 new_AgentMail))
     = Some ''thr-1'' \<and>
   m_thread_id (fst (send_message ''proj'' ''alice'' ''bob'' ''hi'' ''hello'' None ''msg-1'' ''thr-1'' 100 new_AgentMail))
     \<noteq> Some (m_id (fst (send_message ''proj'' ''alice'' ''bob'' ''hi'' ''hello'' None ''msg-1'' ''thr-1'' 100 new_AgentMail)))"
  by (simp add: send_message_def Let_def)

text \<open>
  Claim C5, amended. When the caller supplies no \<^verbatim>\<open>thread_id\<close>, the thread id of the
  created message is a separately generated identifier (the second uuid drawn by the call),
  which establishes a new conversation; the message id is the first uuid drawn.
\<close>

theorem send_message_default_thread_id:
  "m_id (fst (send_message project_key sender recipient subject body None uuid_id uuid_thread now self))
     = uuid_id \<and>
   m_thread_id (fst (send_message project_key sender recipient subject body None uuid_id uuid_thread now self))
     = Some uuid_thread"
  by (simp add: send_message_def Let_def)

lemma send_message_inbox:
  "messages (snd (send_message pk sender recipient subject body thread_id uuid_id uuid_thread now self)) recipient
     = Some ((case messages self recipient of None \<Rightarrow> [] | Some ms \<Rightarrow> ms)
             @ [fst (send_message pk sender recipient subject body thread_id uuid_id uuid_thread now self)])"
  by (simp add: send_message_def Let_def)

lemma send_message_other_inbox:
  "agent_name \<noteq> recipient \<Longrightarrow>
   messages (snd (send_message pk sender recipient subject body thread_id uuid_id uuid_thread now self)) agent_name
     = messages self agent_name"
  by (simp add: send_message_def Let_def)

lemma sorted_reverse_mset: "mset (sorted_reverse f xs) = mset xs"
  by (simp add: sorted_reverse_def)

lemma sorted_reverse_sorted: "sorted_wrt (\<lambda>x y. f y \<le> f x) (sorted_reverse f xs)"
proof -
  have "sorted (map f (sort_key f (rev xs)))" by simp
  then have "sorted_wrt (\<lambda>x y. f x \<le> f y) (sort_key f (rev xs))"
    by (simp only: sorted_map)
  then show ?thesis by (simp add: sorted_reverse_def sorted_wrt_rev)
qed

lemma sorted_reverse_stable:
  "filter (\<lambda>y. f y = k) (sorted_reverse f xs) = filter (\<lambda>y. f y = k) xs"
proof -
  have "filter (\<lambda>y. f y = k) (sorted_reverse f xs)
          = rev (filter (\<lambda>y. f y = k) (sort_key f (rev xs)))"
    by (simp add: sorted_reverse_def rev_filter)
  also have "\<dots> = rev (filter (\<lambda>y. f y = k) (rev xs))"
    by (simp only: sort_key_stable)
  also have "\<dots> = filter (\<lambda>y. f y = k) xs"
    by (simp add: rev_filter)
  finally show ?thesis .
qed

lemma fetch_inbox_eq:
  "fetch_inbox agent_name since_ts self =
     sorted_reverse m_created_at
       (filter (\<lambda>m. case since_ts of None \<Rightarrow> True | Some ts \<Rightarrow> ts \<le> m_created_at m)
          (case messages self agent_name of None \<Rightarrow> [] | Some ms \<Rightarrow> ms))"
  by (simp add: fetch_inbox_def Let_def split: option.splits)

text \<open>
  Claim C6. The inbox of an agent is the list of the messages sent to it, in the order of
  sending (\<open>send_message_inbox\<close>, \<open>send_message_other_inbox\<close>). \<^verbatim>\<open>fetch_inbox\<close> returns exactly
  the messages of the inbox whose \<^verbatim>\<open>created_at\<close> is at least \<^verbatim>\<open>since\<close> (all of them when
  \<^verbatim>\<open>since\<close> is absent), each as often as it occurs there; the result is in decreasing order
  of \<^verbatim>\<open>created_at\<close>; and the messages of any one \<^verbatim>\<open>created_at\<close> appear in their order of
  insertion.
\<close>

theorem fetch_inbox_since_sorted_stable:
  "let inbox = (case messages self agent_name of None \<Rightarrow> [] | Some ms \<Rightarrow> ms);
       wanted = filter (\<lambda>m. case since_ts of None \<Rightarrow> True | Some ts \<Rightarrow> ts \<le> m_created_at m) inbox;
       out = fetch_inbox agent_name since_ts self
   in mset out = mset wanted \<and>
      sorted_wrt (\<lambda>x y. m_created_at y \<le> m_created_at x) out \<and>
      (\<forall>t. filter (\<lambda>m. m_created_at m = t) out = filter (\<lambda>m. m_created_at m = t) wanted)"
  unfolding Let_def fetch_inbox_eq
  by (intro conjI allI sorted_reverse_mset sorted_reverse_sorted sorted_reverse_stable)

section \<open>Issue graph\<close>

lemma map_fst_map_entry: "map fst (AList.map_entry k f xs) = map fst xs"
  by (induction xs) auto

lemma add_blocked_by_map_of:
  "map_of (add_blocked_by new_id L iss) B =
     map_option (\<lambda>b. b\<lparr>i_blocked_by := i_blocked_by b @ replicate (count_list L B) new_id\<rparr>)
       (map_of iss B)"
proof (induction L arbitrary: iss)
  case Nil
  show ?case by (cases "map_of iss B") simp_all
next
  case (Cons x L)
  let ?f = "\<lambda>i. i\<lparr>i_blocked_by := i_blocked_by i @ [new_id]\<rparr>"
  let ?iss = "if map_of iss x \<noteq> None then AList.map_entry x ?f iss else iss"
  have step: "map_of ?iss B = (if x = B then map_option ?f (map_of iss B) else map_of iss B)"
    by (cases "map_of iss x") (auto simp: map_of_map_entry)
  have "map_of (add_blocked_by new_id (x # L) iss) B = map_of (add_blocked_by new_id L ?iss) B"
    by simp
  also have "\<dots> = map_option (\<lambda>b. b\<lparr>i_blocked_by := i_blocked_by b @ replicate (count_list L B) new_id\<rparr>)
                     (map_of ?iss B)"
    by (rule Cons.IH)
  also have "\<dots> = map_option (\<lambda>b. b\<lparr>i_blocked_by := i_blocked_by b @ replicate (count_list (x # L) B) new_id\<rparr>)
                     (map_of iss B)"
    unfolding step by (cases "map_of iss B") simp_all
  finally show ?case .
qed

lemma create_issue_fst:
  "fst (create_issue title description priority parent_id blocking generated_id t1 t2 self) =
     \<lparr>i_id = generated_id, i_title = title, i_description = description,
      i_status = BACKLOG, i_priority = priority, i_parent_id = parent_id,
      i_blocking = (case blocking of None \<Rightarrow> [] | Some l \<Rightarrow> l),
      i_blocked_by = [], i_assignee = None,
      i_created_at = t1, i_updated_at = t2\<rparr>"
  by (simp add: create_issue_def Let_def)

lemma create_issue_map_of:
  "map_of (issues (snd (create_issue title description priority parent_id blocking generated_id t1 t2 self))) B =
     (if B = generated_id
      then Some (fst (create_issue title description priority parent_id blocking generated_id t1 t2 self))
      else map_of (add_blocked_by generated_id (case blocking of None \<Rightarrow> [] | Some l \<Rightarrow> l)
                     (issues self)) B)"
  by (simp add: create_issue_def Let_def save_issue_def update_conv')

lemma beads_x_eq:
  "beads_x = \<lparr>issues = [(''bd-x'',
       \<lparr>i_id = ''bd-x'', i_title = ''X'', i_description = [], i_status = BACKLOG,
        i_priority = ''medium'', i_parent_id = None, i_blocking = [], i_blocked_by = [],
        i_assignee = None, i_created_at = 1, i_updated_at = 1\<rparr>)],
     issues_db = [\<lparr>i_id = ''bd-x'', i_title = ''X'', i_description = [], i_status = BACKLOG,
        i_priority = ''medium'', i_parent_id = None, i_blocking = [], i_blocked_by = [],
        i_assignee = None, i_created_at = 1, i_updated_at = 1\<rparr>]\<rparr>"
  by (simp add: beads_x_def create_issue_def new_Beads_def save_issue_def Let_def)

lemma beads_xy_issues:
  "issues beads_xy =
     [(''bd-x'',
       \<lparr>i_id = ''bd-x'', i_title = ''X'', i_description = [], i_status = BACKLOG,
        i_priority = ''medium'', i_parent_id = None, i_blocking = [], i_blocked_by = [''bd-y''],
        i_assignee = None, i_created_at = 1, i_updated_at = 1\<rparr>),
      (''bd-y'',
       \<lparr>i_id = ''bd-y'', i_title = ''Y'', i_description = [], i_status = BACKLOG,
        i_priority = ''medium'', i_parent_id = None, i_blocking = [''bd-x'', ''bd-ghost''],
        i_blocked_by = [], i_assignee = None, i_created_at = 2, i_updated_at = 2\<rparr>)]"
  by (simp add: beads_xy_def beads_x_eq create_issue_def save_issue_def Let_def)

lemma beads_x_ready_issues:
  "issues beads_x_ready =
     [(''bd-x'',
       \<lparr>i_id = ''bd-x'', i_title = ''X'', i_description = [], i_status = READY,
        i_priority = ''medium'', i_parent_id = None, i_blocking = [], i_blocked_by = [''bd-y''],
        i_assignee = None, i_created_at = 1, i_updated_at = 3\<rparr>),
      (''bd-y'',
       \<lparr>i_id = ''bd-y'', i_title = ''Y'', i_description = [], i_status = BACKLOG,
        i_priority = ''medium'', i_parent_id = None, i_blocking = [''bd-x'', ''bd-ghost''],
        i_blocked_by = [], i_assignee = None, i_created_at = 2, i_updated_at = 2\<rparr>)]"
  by (simp add: beads_x_ready_def beads_xy_issues update_issue_def save_issue_def Let_def)

lemma beads_y_done_issues:
  "issues beads_y_done =
     [(''bd-x'',
       \<lparr>i_id = ''bd-x'', i_title = ''X'', i_description = [], i_status = READY,
        i_priority = ''medium'', i_parent_id = None, i_blocking = [], i_blocked_by = [''bd-y''],
        i_assignee = None, i_created_at = 1, i_updated_at = 3\<rparr>),
      (''bd-y'',
       \<lparr>i_id = ''bd-y'', i_title = ''Y'', i_description = [], i_status = DONE,
        i_priority = ''medium'', i_parent_id = None, i_blocking = [''bd-x'', ''bd-ghost''],
        i_blocked_by = [], i_assignee = None, i_created_at = 2, i_updated_at = 4\<rparr>)]"
  by (simp add: beads_y_done_def beads_x_ready_issues update_issue_def save_issue_def Let_def)

text \<open>
  Claim C7 as stated fails. The id of a new issue is the first six hexadecimal digits of a
  hash of title and clock, and it can be the id of an issue of the store. With \<^verbatim>\<open>bd-x\<close> in
  the store, \<^verbatim>\<open>create_issue\<close> is called with \<^verbatim>\<open>blocking=["bd-x"]\<close> and generates \<^verbatim>\<open>bd-x\<close>:
  the assignment of line 454 puts the new issue C in the place of the old one, so that
  afterwards \<^verbatim>\<open>bd-x\<close> is in \<^verbatim>\<open>C.blocking\<close> and is a key of the store, and the \<^verbatim>\<open>blocked_by\<close>
  list stored under \<^verbatim>\<open>bd-x\<close> is empty.
\<close>

theorem create_issue_id_collision_counterexample:
  "map_option i_id (map_of (issues beads_x) ''bd-x'') = Some ''bd-x'' \<and>
   i_id (fst (create_issue ''X again'' [] ''medium'' None (Some [''bd-x'']) ''bd-x'' 2 2 beads_x))
     = ''bd-x'' \<and>
   i_blocking (fst (create_issue ''X again'' [] ''medium'' None (Some [''bd-x'']) ''bd-x'' 2 2 beads_x))
     = [''bd-x''] \<and>
   map_of (issues beads_collision) ''bd-x''
     = Some (fst (create_issue ''X again'' [] ''medium'' None (Some [''bd-x'']) ''bd-x'' 2 2 beads_x)) \<and>
   map_option i_blocked_by (map_of (issues beads_collision) ''bd-x'') = Some []"
  by (simp add: beads_collision_def beads_x_eq create_issue_def save_issue_def Let_def)

text \<open>
  Claim C7, amended. Let \<^verbatim>\<open>create_issue\<close> be called with \<^verbatim>\<open>blocking=L\<close> and return the new
  issue C. Then \<^verbatim>\<open>C.blocking\<close> is L, and for every id B in L that is a key of the store at
  the time of the call the loop appends C's id to the \<^verbatim>\<open>blocked_by\<close> list of the issue
  stored under B, once for each occurrence of B in L, changing nothing else of that issue.
  For every such B other than the id generated for C, this is the issue stored under B when
  the call returns, so that C's id is in \<^verbatim>\<open>B.blocked_by\<close>. An id other than C's that is not
  a key of the store is not a key afterwards either, so it gets no edge; and whatever issue
  is created later, under that id or any other, starts with an empty \<^verbatim>\<open>blocked_by\<close>, so no
  edge is added in retrospect.
\<close>

theorem create_issue_links_blockers:
  assumes "create_issue title description priority parent_id blocking generated_id t1 t2 self = (C, self')"
    and "L = (case blocking of None \<Rightarrow> [] | Some l \<Rightarrow> l)"
  shows "i_id C = generated_id \<and> i_blocking C = L \<and> i_blocked_by C = [] \<and>
    map_of (issues self') generated_id = Some C \<and>
    (\<forall>B b. B \<in> set L \<and> map_of (issues self) B = Some b \<longrightarrow>
       map_of (add_blocked_by generated_id L (issues self)) B
         = Some (b\<lparr>i_blocked_by := i_blocked_by b @ replicate (count_list L B) generated_id\<rparr>) \<and>
       generated_id \<in> set (i_blocked_by b @ replicate (count_list L B) generated_id) \<and>
       (B \<noteq> generated_id \<longrightarrow>
          map_of (issues self') B
            = Some (b\<lparr>i_blocked_by := i_blocked_by b @ replicate (count_list L B) generated_id\<rparr>))) \<and>
    (\<forall>X. X \<noteq> generated_id \<and> map_of (issues self) X = None \<longrightarrow> map_of (issues self') X = None) \<and>
    (\<forall>title' description' priority' parent_id' blocking' X t3 t4 later.
       i_blocked_by (fst (create_issue title' description' priority' parent_id' blocking' X t3 t4 later)) = [] \<and>
       map_of (issues (snd (create_issue title' description' priority' parent_id' blocking' X t3 t4 later))) X
         = Some (fst (create_issue title' description' priority' parent_id' blocking' X t3 t4 later)))"
proof -
  have C: "C = fst (create_issue title description priority parent_id blocking generated_id t1 t2 self)"
    and S: "self' = snd (create_issue title description priority parent_id blocking generated_id t1 t2 self)"
    using assms(1) by simp_all
  have 1: "i_id C = generated_id \<and> i_blocking C = L \<and> i_blocked_by C = []"
    unfolding C create_issue_fst assms(2) by simp
  have 2: "map_of (issues self') generated_id = Some C"
    unfolding S create_issue_map_of C by simp
  have 3: "map_of (add_blocked_by generated_id L (issues self)) B
         = Some (b\<lparr>i_blocked_by := i_blocked_by b @ replicate (count_list L B) generated_id\<rparr>) \<and>
       generated_id \<in> set (i_blocked_by b @ replicate (count_list L B) generated_id) \<and>
       (B \<noteq> generated_id \<longrightarrow>
          map_of (issues self') B
            = Some (b\<lparr>i_blocked_by := i_blocked_by b @ replicate (count_list L B) generated_id\<rparr>))"
    if "B \<in> set L \<and> map_of (issues self) B = Some b" for B b
  proof -
    from that have "count_list L B \<noteq> 0" by (simp add: count_list_0_iff)
    then have "generated_id \<in> set (replicate (count_list L B) generated_id)" by simp
    moreover have loop: "map_of (add_blocked_by generated_id L (issues self)) B
         = Some (b\<lparr>i_blocked_by := i_blocked_by b @ replicate (count_list L B) generated_id\<rparr>)"
      using that by (simp add: add_blocked_by_map_of)
    moreover have "map_of (issues self') B
         = Some (b\<lparr>i_blocked_by := i_blocked_by b @ replicate (count_list L B) generated_id\<rparr>)"
      if "B \<noteq> generated_id"
      unfolding S create_issue_map_of using that loop by (simp add: assms(2))
    ultimately show ?thesis by simp
  qed
  have 4: "map_of (issues self') X = None" if "X \<noteq> generated_id \<and> map_of (issues self) X = None" for X
    unfolding S create_issue_map_of using that by (simp add: add_blocked_by_map_of)
  have 5: "i_blocked_by (fst (create_issue title' description' priority' parent_id' blocking' X t3 t4 later)) = [] \<and>
       map_of (issues (snd (create_issue title' description' priority' parent_id' blocking' X t3 t4 later))) X
         = Some (fst (create_issue title' description' priority' parent_id' blocking' X t3 t4 later))"
    for title' description' priority' parent_id' blocking' X t3 t4 later
    unfolding create_issue_map_of by (simp add: create_issue_fst)
  from 1 2 3 4 5 show ?thesis by blast
qed

text \<open>With \<^verbatim>\<open>bd-x\<close> in the store, \<^verbatim>\<open>bd-y\<close> is created with
  \<^verbatim>\<open>blocking=["bd-x", "bd-ghost"]\<close>: \<^verbatim>\<open>bd-x\<close> is now blocked by \<^verbatim>\<open>bd-y\<close>, and \<^verbatim>\<open>bd-ghost\<close> is
  still unknown.\<close>

theorem create_issue_links_blockers_witness:
  "map_option i_blocked_by (map_of (issues beads_xy) ''bd-x'') = Some [''bd-y''] \<and>
   map_option i_blocking (map_of (issues beads_xy) ''bd-y'') = Some [''bd-x'', ''bd-ghost''] \<and>
   map_of (issues beads_xy) ''bd-ghost'' = None"
proof -
  let ?call = "create_issue ''Y'' [] ''medium'' None (Some [''bd-x'', ''bd-ghost'']) ''bd-y'' 2 2 beads_x"
  let ?x = "\<lparr>i_id = ''bd-x'', i_title = ''X'', i_description = [], i_status = BACKLOG,
        i_priority = ''medium'', i_parent_id = None, i_blocking = [], i_blocked_by = [],
        i_assignee = None, i_created_at = 1, i_updated_at = 1\<rparr>"
  have h1: "?call = (fst ?call, beads_xy)" by (simp add: beads_xy_def)
  have h2: "[''bd-x'', ''bd-ghost''] = (case Some [''bd-x'', ''bd-ghost''] of None \<Rightarrow> [] | Some l \<Rightarrow> l)"
    by simp
  note t = create_issue_links_blockers [OF h1 h2]
  have x: "''bd-x'' \<in> set [''bd-x'', ''bd-ghost''] \<and> map_of (issues beads_x) ''bd-x'' = Some ?x"
    by (simp add: beads_x_eq)
  have g: "''bd-ghost'' \<noteq> ''bd-y'' \<and> map_of (issues beads_x) ''bd-ghost'' = None"
    by (simp add: beads_x_eq)
  have ne: "''bd-x'' \<noteq> ''bd-y''" by simp
  note linked = t [THEN conjunct2, THEN conjunct2, THEN conjunct2, THEN conjunct2, THEN conjunct1,
      THEN spec, THEN spec, THEN mp, OF x, THEN conjunct2, THEN conjunct2, THEN mp, OF ne]
  note ghost = t [THEN conjunct2, THEN conjunct2, THEN conjunct2, THEN conjunct2, THEN conjunct2,
      THEN conjunct1, THEN spec, THEN mp, OF g]
  note stored = t [THEN conjunct2, THEN conjunct2, THEN conjunct2, THEN conjunct1]
  note blocking = t [THEN conjunct2, THEN conjunct1]
  have "map_option i_blocked_by (map_of (issues beads_xy) ''bd-x'') = Some [''bd-y'']"
    unfolding linked by simp
  moreover have "map_option i_blocking (map_of (issues beads_xy) ''bd-y'') = Some [''bd-x'', ''bd-ghost'']"
    unfolding stored using blocking by simp
  ultimately show ?thesis using ghost by simp
qed

lemma all_done_iff:
  "all_done iss issue \<longleftrightarrow>
     (\<forall>bid \<in> set (i_blocked_by issue). \<forall>b. map_of iss bid = Some b \<longrightarrow> i_status b = DONE)"
  by (auto simp: all_done_def blocker_status_def list_all_iff)

lemma ready_loop_set:
  "set (ready_loop iss xs) =
     {i \<in> set xs. i_status i = READY \<and> (i_blocked_by i = [] \<or> all_done iss i)}"
  by (induction xs) auto

text \<open>
  Claim C8. An issue is in the result of \<^verbatim>\<open>get_ready_issues\<close> if and only if it is a value
  of the store, its status is ready, and either its \<^verbatim>\<open>blocked_by\<close> list is empty or every
  blocker id of the list that is a key of the store refers to an issue whose status is done.
  Blocker ids that are not keys of the store impose nothing.
\<close>

theorem get_ready_issues_iff:
  "issue \<in> set (get_ready_issues self) \<longleftrightarrow>
     issue \<in> snd ` set (issues self) \<and> i_status issue = READY \<and>
     (i_blocked_by issue = [] \<or>
      (\<forall>bid \<in> set (i_blocked_by issue). \<forall>b. map_of (issues self) bid = Some b \<longrightarrow> i_status b = DONE))"
  by (simp add: get_ready_issues_def ready_loop_set all_done_iff)

text \<open>\<^verbatim>\<open>bd-x\<close> is ready and blocked by \<^verbatim>\<open>bd-y\<close>: it is not in the result while \<^verbatim>\<open>bd-y\<close> is
  in the backlog, and it is once \<^verbatim>\<open>bd-y\<close> is done.\<close>

theorem get_ready_issues_iff_witness:
  "\<lparr>i_id = ''bd-x'', i_title = ''X'', i_description = [], i_status = READY,
     i_priority = ''medium'', i_parent_id = None, i_blocking = [], i_blocked_by = [''bd-y''],
     i_assignee = None, i_created_at = 1, i_updated_at = 3\<rparr> \<notin> set (get_ready_issues beads_x_ready) \<and>
   \<lparr>i_id = ''bd-x'', i_title = ''X'', i_description = [], i_status = READY,
     i_priority = ''medium'', i_parent_id = None, i_blocking = [], i_blocked_by = [''bd-y''],
     i_assignee = None, i_created_at = 1, i_updated_at = 3\<rparr> \<in> set (get_ready_issues beads_y_done)"
  using get_ready_issues_iff [of "\<lparr>i_id = ''bd-x'', i_title = ''X'', i_description = [], i_status = READY,
     i_priority = ''medium'', i_parent_id = None, i_blocking = [], i_blocked_by = [''bd-y''],
     i_assignee = None, i_created_at = 1, i_updated_at = 3\<rparr>" beads_x_ready]
    get_ready_issues_iff [of "\<lparr>i_id = ''bd-x'', i_title = ''X'', i_description = [], i_status = READY,
     i_priority = ''medium'', i_parent_id = None, i_blocking = [], i_blocked_by = [''bd-y''],
     i_assignee = None, i_created_at = 1, i_updated_at = 3\<rparr>" beads_y_done]
  by (simp add: beads_x_ready_issues beads_y_done_issues)

text \<open>
  Claim C9. For an id that is not a key of the store, \<^verbatim>\<open>update_issue\<close> returns \<^verbatim>\<open>None\<close> and
  leaves the store and the JSONL file as they were. For a key of the store it returns the
  issue stored there with \<^verbatim>\<open>status\<close>, \<^verbatim>\<open>assignee\<close> and \<^verbatim>\<open>priority\<close> replaced by the
  arguments supplied (an argument that is \<^verbatim>\<open>None\<close>, or an empty string, counts as not
  supplied and leaves the field alone) and with \<^verbatim>\<open>updated_at\<close> set to the clock; every other
  field of the issue is unchanged, the issue is stored under its key, every other key holds
  what it held, the order of the keys is unchanged, and the snapshot of the updated issue is
  appended to the JSONL file.
\<close>

theorem update_issue_touches_supplied_fields:
  "(map_of (issues self) issue_id = None \<longrightarrow>
      update_issue issue_id status assignee priority now self = (None, self)) \<and>
   (\<forall>issue. map_of (issues self) issue_id = Some issue \<longrightarrow>
      (let issue' = issue\<lparr>i_status := (case status of None \<Rightarrow> i_status issue | Some s \<Rightarrow> s),
                             i_assignee := (case assignee of
                                              None \<Rightarrow> i_assignee issue
                                            | Some a \<Rightarrow> if a = [] then i_assignee issue else Some a),
                             i_priority := (case priority of
                                              None \<Rightarrow> i_priority issue
                                            | Some p \<Rightarrow> if p = [] then i_priority issue else p),
                             i_updated_at := now\<rparr>;
           self' = snd (update_issue issue_id status assignee priority now self)
       in fst (update_issue issue_id status assignee priority now self) = Some issue' \<and>
          map_of (issues self') issue_id = Some issue' \<and>
          (\<forall>other. other \<noteq> issue_id \<longrightarrow> map_of (issues self') other = map_of (issues self) other) \<and>
          map fst (issues self') = map fst (issues self) \<and>
          issues_db self' = issues_db self @ [issue']))"
proof (intro conjI allI impI)
  assume "map_of (issues self) issue_id = None"
  then show "update_issue issue_id status assignee priority now self = (None, self)"
    by (simp add: update_issue_def)
next
  fix issue
  assume known: "map_of (issues self) issue_id = Some issue"
  let ?issue' = "issue\<lparr>i_status := (case status of None \<Rightarrow> i_status issue | Some s \<Rightarrow> s),
                         i_assignee := (case assignee of
                                          None \<Rightarrow> i_assignee issue
                                        | Some a \<Rightarrow> if a = [] then i_assignee issue else Some a),
                         i_priority := (case priority of
                                          None \<Rightarrow> i_priority issue
                                        | Some p \<Rightarrow> if p = [] then i_priority issue else p),
                         i_updated_at := now\<rparr>"
  let ?self' = "save_issue ?issue'
                  (self\<lparr>issues := AList.map_entry issue_id (\<lambda>_. ?issue') (issues self)\<rparr>)"
  have run: "update_issue issue_id status assignee priority now self = (Some ?issue', ?self')"
    using known
    by (cases status; cases assignee; cases priority) (simp_all add: update_issue_def Let_def)
  have stored: "map_of (issues ?self') issue_id = Some ?issue'"
    using known by (simp add: save_issue_def map_of_map_entry)
  have others: "\<forall>other. other \<noteq> issue_id \<longrightarrow> map_of (issues ?self') other = map_of (issues self) other"
    by (simp add: save_issue_def map_of_map_entry)
  have keys: "map fst (issues ?self') = map fst (issues self)"
    by (simp add: save_issue_def map_fst_map_entry)
  have log: "issues_db ?self' = issues_db self @ [?issue']"
    by (simp add: save_issue_def)
  have f: "fst (update_issue issue_id status assignee priority now self) = Some ?issue'"
    and s: "snd (update_issue issue_id status assignee priority now self) = ?self'"
    by (simp_all only: run fst_conv snd_conv)
  show "let issue' = ?issue';
            self' = snd (update_issue issue_id status assignee priority now self)
        in fst (update_issue issue_id status assignee priority now self) = Some issue' \<and>
           map_of (issues self') issue_id = Some issue' \<and>
           (\<forall>other. other \<noteq> issue_id \<longrightarrow> map_of (issues self') other = map_of (issues self) other) \<and>
           map fst (issues self') = map fst (issues self) \<and>
           issues_db self' = issues_db self @ [issue']"
    unfolding Let_def s
    by (intro conjI f stored others keys log)
qed

text \<open>On the store holding \<^verbatim>\<open>bd-x\<close> and \<^verbatim>\<open>bd-y\<close>: an update of the unknown \<^verbatim>\<open>bd-none\<close>
  returns \<^verbatim>\<open>None\<close> and changes nothing; an update of \<^verbatim>\<open>bd-x\<close> with a status and an assignee
  sets these two fields and \<^verbatim>\<open>updated_at\<close>, and \<^verbatim>\<open>bd-y\<close> is untouched.\<close>

theorem update_issue_touches_supplied_fields_witness:
  "update_issue ''bd-none'' (Some READY) None None 3 beads_xy = (None, beads_xy) \<and>
   fst (update_issue ''bd-x'' (Some READY) (Some ''alice'') None 3 beads_xy)
     = Some \<lparr>i_id = ''bd-x'', i_title = ''X'', i_description = [], i_status = READY,
             i_priority = ''medium'', i_parent_id = None, i_blocking = [], i_blocked_by = [''bd-y''],
             i_assignee = Some ''alice'', i_created_at = 1, i_updated_at = 3\<rparr> \<and>
   map_of (issues (snd (update_issue ''bd-x'' (Some READY) (Some ''alice'') None 3 beads_xy))) ''bd-y''
     = map_of (issues beads_xy) ''bd-y''"
proof -
  let ?x = "\<lparr>i_id = ''bd-x'', i_title = ''X'', i_description = [], i_status = BACKLOG,
        i_priority = ''medium'', i_parent_id = None, i_blocking = [], i_blocked_by = [''bd-y''],
        i_assignee = None, i_created_at = 1, i_updated_at = 1\<rparr>"
  have unknown: "map_of (issues beads_xy) ''bd-none'' = None"
    by (simp add: beads_xy_issues)
  have known: "map_of (issues beads_xy) ''bd-x'' = Some ?x"
    by (simp add: beads_xy_issues)
  have ne: "''bd-y'' \<noteq> ''bd-x''" by simp
  note miss = update_issue_touches_supplied_fields
      [where self = beads_xy and issue_id = "''bd-none''" and status = "Some READY"
         and assignee = None and priority = None and now = 3,
       THEN conjunct1, THEN mp, OF unknown]
  note hit = update_issue_touches_supplied_fields
      [where self = beads_xy and issue_id = "''bd-x''" and status = "Some READY"
         and assignee = "Some ''alice''" and priority = None and now = 3,
       THEN conjunct2, THEN spec, THEN mp, OF known, unfolded Let_def]
  note returned = hit [THEN conjunct1]
  note others = hit [THEN conjunct2, THEN conjunct2, THEN conjunct1, THEN spec, THEN mp, OF ne]
  have "fst (update_issue ''bd-x'' (Some READY) (Some ''alice'') None 3 beads_xy)
     = Some \<lparr>i_id = ''bd-x'', i_title = ''X'', i_description = [], i_status = READY,
             i_priority = ''medium'', i_parent_id = None, i_blocking = [], i_blocked_by = [''bd-y''],
             i_assignee = Some ''alice'', i_created_at = 1, i_updated_at = 3\<rparr>"
    unfolding returned by simp
  with miss others show ?thesis by (intro conjI)
qed

end
